theory Spec2Isabelle
  imports Main
begin

section \<open>Python values, errors and dictionaries\<close>

text \<open>
  The module \<^verbatim>\<open>pysot/models/model_builder.py\<close> is glue code: it calls a backbone, a neck,
  heads, loss functions and the tensor runtime, none of which it defines. The embedding
  keeps tensors abstract (type \<open>'t\<close>), takes every collaborator as a function that either
  raises or returns, and models exactly what the file itself does: which attribute and
  which local variable each statement reads and writes, in Python's evaluation order.
\<close>

datatype error =
    AttributeError string      \<comment> \<open>reading an attribute the object does not have\<close>
  | UnboundLocalError string   \<comment> \<open>reading a local variable that was never assigned\<close>
  | KeyError string            \<comment> \<open>dictionary lookup of an absent key\<close>
  | TypeError                  \<comment> \<open>an operator applied to operands it is not defined for\<close>
  | IndexError                 \<comment> \<open>\<^verbatim>\<open>xs[-1]\<close> on an empty list\<close>
  | ValueError                 \<comment> \<open>tuple unpacking with the wrong number of values\<close>
  | RuntimeError string        \<comment> \<open>raised inside a collaborator\<close>

datatype 't pyval =
    PyNone
  | Tensor 't
  | PyList "'t pyval list"

type_synonym 't pydict = "(string \<times> 't pyval) list"

definition dict_getitem :: "'t pydict \<Rightarrow> string \<Rightarrow> error + 't pyval" where
  "dict_getitem d k = (case map_of d k of None \<Rightarrow> Inl (KeyError k) | Some v \<Rightarrow> Inr v)"

fun dict_setitem :: "'t pydict \<Rightarrow> string \<Rightarrow> 't pyval \<Rightarrow> 't pydict" where
  "dict_setitem [] k v = [(k, v)]"
| "dict_setitem (p # ps) k v = (if fst p = k then (k, v) # ps else p # dict_setitem ps k v)"

section \<open>The tensor runtime and the configuration\<close>

text \<open>
  What \<^verbatim>\<open>torch\<close>, \<^verbatim>\<open>torch.nn.functional\<close> and \<^verbatim>\<open>pysot.models.loss\<close> provide is a parameter
  of the model. \<open>'w\<close> is the type of the Python floats in \<^verbatim>\<open>cfg.TRAIN\<close>.
\<close>

datatype submodule = Backbone | Neck | RpnHead | MaskHead | RefineHead

record ('t, 'w) runtime =
  t_getitem_last :: "'t \<Rightarrow> error + 't"                  \<comment> \<open>\<^verbatim>\<open>t[-1]\<close> on a tensor\<close>
  t_slice_butlast :: "'t \<Rightarrow> error + 't"                 \<comment> \<open>\<^verbatim>\<open>t[:-1]\<close> on a tensor\<close>
  t_cuda :: "'t \<Rightarrow> error + 't"                          \<comment> \<open>\<^verbatim>\<open>t.cuda()\<close>\<close>
  t_size :: "'t \<Rightarrow> nat list"                            \<comment> \<open>\<^verbatim>\<open>t.size()\<close>\<close>
  t_view :: "'t \<Rightarrow> nat list \<Rightarrow> error + 't"              \<comment> \<open>\<^verbatim>\<open>t.view(...)\<close>\<close>
  t_permute :: "'t \<Rightarrow> nat list \<Rightarrow> error + 't"           \<comment> \<open>\<^verbatim>\<open>t.permute(...)\<close>\<close>
  t_contiguous :: "'t \<Rightarrow> 't"                            \<comment> \<open>\<^verbatim>\<open>t.contiguous()\<close>\<close>
  F_log_softmax :: "'t \<Rightarrow> nat \<Rightarrow> error + 't"            \<comment> \<open>\<^verbatim>\<open>F.log_softmax(t, dim=d)\<close>\<close>
  t_rmul :: "'w \<Rightarrow> 't \<Rightarrow> 't"                            \<comment> \<open>float \<^verbatim>\<open>*\<close> tensor\<close>
  t_add :: "'t \<Rightarrow> 't \<Rightarrow> error + 't"                     \<comment> \<open>tensor \<^verbatim>\<open>+\<close> tensor\<close>
  select_cross_entropy_loss :: "'t pyval \<Rightarrow> 't pyval \<Rightarrow> error + 't pyval"
  weight_l1_loss :: "'t pyval \<Rightarrow> 't pyval \<Rightarrow> 't pyval \<Rightarrow> error + 't pyval"
  jit_script :: "submodule \<Rightarrow> error + unit"             \<comment> \<open>\<^verbatim>\<open>torch.jit.script(self.m)\<close>\<close>
  script_save :: "submodule \<Rightarrow> string \<Rightarrow> error + unit"  \<comment> \<open>\<^verbatim>\<open>.save(path)\<close> of that script\<close>
  jit_enabled :: bool                                   \<comment> \<open>false under \<^verbatim>\<open>PYTORCH_JIT=0\<close>\<close>

text \<open>The entries of \<^verbatim>\<open>cfg\<close> the file reads; \<open>'k\<close> is the type of a \<^verbatim>\<open>KWARGS\<close> dictionary.\<close>

record ('w, 'k) config =
  BACKBONE_TYPE :: string
  BACKBONE_KWARGS :: 'k
  ADJUST_ADJUST :: bool
  ADJUST_TYPE :: string
  ADJUST_KWARGS :: 'k
  RPN_TYPE :: string
  RPN_KWARGS :: 'k
  MASK_MASK :: bool
  MASK_TYPE :: string
  MASK_KWARGS :: 'k
  REFINE_REFINE :: bool
  REFINE_TYPE :: string
  TRAIN_CLS_WEIGHT :: 'w
  TRAIN_LOC_WEIGHT :: 'w
  TRAIN_MASK_WEIGHT :: 'w

subsection \<open>Operators on Python values\<close>

definition getitem_last :: "('t, 'w) runtime \<Rightarrow> 't pyval \<Rightarrow> error + 't pyval" where
  \<comment> \<open>\<^verbatim>\<open>v[-1]\<close>\<close>
  "getitem_last rt v =
     (case v of
        PyList xs \<Rightarrow> (if xs = [] then Inl IndexError else Inr (last xs))
      | Tensor t \<Rightarrow> (case t_getitem_last rt t of Inl e \<Rightarrow> Inl e | Inr t' \<Rightarrow> Inr (Tensor t'))
      | PyNone \<Rightarrow> Inl TypeError)"

definition slice_butlast :: "('t, 'w) runtime \<Rightarrow> 't pyval \<Rightarrow> error + 't pyval" where
  \<comment> \<open>\<^verbatim>\<open>v[:-1]\<close>; slicing a list never raises\<close>
  "slice_butlast rt v =
     (case v of
        PyList xs \<Rightarrow> Inr (PyList (butlast xs))
      | Tensor t \<Rightarrow> (case t_slice_butlast rt t of Inl e \<Rightarrow> Inl e | Inr t' \<Rightarrow> Inr (Tensor t'))
      | PyNone \<Rightarrow> Inl TypeError)"

definition py_cuda :: "('t, 'w) runtime \<Rightarrow> 't pyval \<Rightarrow> error + 't pyval" where
  \<comment> \<open>\<^verbatim>\<open>v.cuda()\<close>\<close>
  "py_cuda rt v =
     (case v of
        Tensor t \<Rightarrow> (case t_cuda rt t of Inl e \<Rightarrow> Inl e | Inr t' \<Rightarrow> Inr (Tensor t'))
      | _ \<Rightarrow> Inl (AttributeError ''cuda''))"

definition py_rmul :: "('t, 'w) runtime \<Rightarrow> 'w \<Rightarrow> 't pyval \<Rightarrow> error + 't pyval" where
  \<comment> \<open>float \<^verbatim>\<open>*\<close> value: defined for a tensor, a TypeError for \<^verbatim>\<open>None\<close> and for a list\<close>
  "py_rmul rt w v =
     (case v of
        Tensor t \<Rightarrow> Inr (Tensor (t_rmul rt w t))
      | _ \<Rightarrow> Inl TypeError)"

definition py_add :: "('t, 'w) runtime \<Rightarrow> 't pyval \<Rightarrow> 't pyval \<Rightarrow> error + 't pyval" where
  \<comment> \<open>value \<^verbatim>\<open>+\<close> value\<close>
  "py_add rt a b =
     (case (a, b) of
        (Tensor x, Tensor y) \<Rightarrow> (case t_add rt x y of Inl e \<Rightarrow> Inl e | Inr t \<Rightarrow> Inr (Tensor t))
      | (PyList xs, PyList ys) \<Rightarrow> Inr (PyList (xs @ ys))
      | _ \<Rightarrow> Inl TypeError)"

section \<open>The model object and statements that read and write it\<close>

text \<open>
  An attribute of \<^verbatim>\<open>self\<close> is present or absent: \<open>None\<close> is the absent attribute, whose
  read raises \<^verbatim>\<open>AttributeError\<close>. \<open>'p\<close> is the type of the \<^verbatim>\<open>pos\<close> argument of
  \<^verbatim>\<open>mask_refine\<close>.
\<close>

type_synonym 't unary = "'t pyval \<Rightarrow> error + 't pyval"
type_synonym 't head = "'t pyval \<Rightarrow> 't pyval \<Rightarrow> error + 't pyval \<times> 't pyval"
type_synonym ('t, 'p) refiner = "'t pyval \<Rightarrow> 't pyval \<Rightarrow> 'p \<Rightarrow> error + 't pyval"

record ('t, 'p) model_builder =
  self_backbone :: "'t unary option"
  self_neck :: "'t unary option"
  self_rpn_head :: "'t head option"
  self_mask_head :: "'t head option"
  self_refine_head :: "('t, 'p) refiner option"
  self_zf :: "'t pyval option"
  self_xf :: "'t pyval option"
  self_mask_corr_feature :: "'t pyval option"
  self_xf_refine :: "'t pyval option"

text \<open>
  A method body is a function from the object to a result (an error or a value) and the
  object as the body left it: an assignment made before a raise stays made.
\<close>

type_synonym ('s, 'a) prog = "'s \<Rightarrow> (error + 'a) \<times> 's"

definition ret :: "'a \<Rightarrow> ('s, 'a) prog" where
  "ret v = (\<lambda>s. (Inr v, s))"

definition raise :: "error \<Rightarrow> ('s, 'a) prog" where
  "raise e = (\<lambda>s. (Inl e, s))"

definition pbind :: "('s, 'a) prog \<Rightarrow> ('a \<Rightarrow> ('s, 'b) prog) \<Rightarrow> ('s, 'b) prog" where
  \<comment> \<open>sequencing: the second statement runs only if the first did not raise\<close>
  "pbind m f = (\<lambda>s. case m s of (Inl e, s') \<Rightarrow> (Inl e, s') | (Inr v, s') \<Rightarrow> f v s')"

definition call :: "error + 'a \<Rightarrow> ('s, 'a) prog" where
  \<comment> \<open>the outcome of a call into a collaborator or of an operator\<close>
  "call r = (\<lambda>s. (r, s))"

definition getattr :: "string \<Rightarrow> ('s \<Rightarrow> 'a option) \<Rightarrow> ('s, 'a) prog" where
  \<comment> \<open>\<^verbatim>\<open>self.name\<close>\<close>
  "getattr name field =
     (\<lambda>s. case field s of None \<Rightarrow> (Inl (AttributeError name), s) | Some v \<Rightarrow> (Inr v, s))"

definition setattr :: "('s \<Rightarrow> 's) \<Rightarrow> ('s, unit) prog" where
  \<comment> \<open>\<^verbatim>\<open>self.name = v\<close>, given as the record update\<close>
  "setattr upd = (\<lambda>s. (Inr (), upd s))"

definition local_var :: "string \<Rightarrow> 'a option \<Rightarrow> ('s, 'a) prog" where
  \<comment> \<open>reading a local variable that a branch not taken may have left unassigned\<close>
  "local_var name v = (case v of None \<Rightarrow> raise (UnboundLocalError name) | Some x \<Rightarrow> ret x)"

definition ebind :: "error + 'a \<Rightarrow> ('a \<Rightarrow> error + 'b) \<Rightarrow> error + 'b" where
  \<comment> \<open>sequencing where no object is involved\<close>
  "ebind r f = (case r of Inl e \<Rightarrow> Inl e | Inr v \<Rightarrow> f v)"

section \<open>ModelBuilder\<close>

subsection \<open>\<^verbatim>\<open>__init__\<close>\<close>

text \<open>
  The factories \<^verbatim>\<open>get_backbone\<close>, \<^verbatim>\<open>get_neck\<close>, \<^verbatim>\<open>get_rpn_head\<close>, \<^verbatim>\<open>get_mask_head\<close>
  and \<^verbatim>\<open>get_refine_head\<close> are imported from other modules; they are a parameter. A
  submodule is the function its call computes.
\<close>

record ('t, 'p, 'k) factories =
  get_backbone :: "string \<Rightarrow> 'k \<Rightarrow> error + 't unary"
  get_neck :: "string \<Rightarrow> 'k \<Rightarrow> error + 't unary"
  get_rpn_head :: "string \<Rightarrow> 'k \<Rightarrow> error + 't head"
  get_mask_head :: "string \<Rightarrow> 'k \<Rightarrow> error + 't head"
  get_refine_head :: "string \<Rightarrow> error + ('t, 'p) refiner"

definition fresh_module :: "('t, 'p) model_builder" where
  \<comment> \<open>the object after \<^verbatim>\<open>super(ModelBuilder, self).__init__()\<close>: none of the attributes yet\<close>
  "fresh_module =
     \<lparr>self_backbone = None, self_neck = None, self_rpn_head = None, self_mask_head = None,
      self_refine_head = None, self_zf = None, self_xf = None,
      self_mask_corr_feature = None, self_xf_refine = None\<rparr>"

definition init_body ::
  "('w, 'k) config \<Rightarrow> ('t, 'p, 'k) factories \<Rightarrow> (('t, 'p) model_builder, unit) prog" where
  "init_body cfg fs =
     pbind (call (get_backbone fs (BACKBONE_TYPE cfg) (BACKBONE_KWARGS cfg))) (\<lambda>bb.
     pbind (setattr (\<lambda>s. s\<lparr>self_backbone := Some bb\<rparr>)) (\<lambda>_.
     pbind (if ADJUST_ADJUST cfg then
              pbind (call (get_neck fs (ADJUST_TYPE cfg) (ADJUST_KWARGS cfg))) (\<lambda>nk.
              setattr (\<lambda>s. s\<lparr>self_neck := Some nk\<rparr>))
            else ret ()) (\<lambda>_.
     pbind (call (get_rpn_head fs (RPN_TYPE cfg) (RPN_KWARGS cfg))) (\<lambda>rh.
     pbind (setattr (\<lambda>s. s\<lparr>self_rpn_head := Some rh\<rparr>)) (\<lambda>_.
     if MASK_MASK cfg then
       pbind (call (get_mask_head fs (MASK_TYPE cfg) (MASK_KWARGS cfg))) (\<lambda>mh.
       pbind (setattr (\<lambda>s. s\<lparr>self_mask_head := Some mh\<rparr>)) (\<lambda>_.
       if REFINE_REFINE cfg then
         pbind (call (get_refine_head fs (REFINE_TYPE cfg))) (\<lambda>rf.
         setattr (\<lambda>s. s\<lparr>self_refine_head := Some rf\<rparr>))
       else ret ()))
     else ret ())))))"

definition init ::
  "('w, 'k) config \<Rightarrow> ('t, 'p, 'k) factories \<Rightarrow> error + ('t, 'p) model_builder" where
  \<comment> \<open>\<^verbatim>\<open>ModelBuilder()\<close>: the constructed object, or the error a factory raised\<close>
  "init cfg fs = (case init_body cfg fs fresh_module of (Inl e, _) \<Rightarrow> Inl e | (Inr _, s) \<Rightarrow> Inr s)"

subsection \<open>\<^verbatim>\<open>template\<close>\<close>

definition template ::
  "('w, 'k) config \<Rightarrow> ('t, 'w) runtime \<Rightarrow> 't pyval \<Rightarrow> (('t, 'p) model_builder, unit) prog" where
  "template cfg rt z =
     pbind (getattr ''backbone'' self_backbone) (\<lambda>bb.
     pbind (call (bb z)) (\<lambda>zf0.
     pbind (if MASK_MASK cfg then call (getitem_last rt zf0) else ret zf0) (\<lambda>zf1.
     pbind (if ADJUST_ADJUST cfg then
              pbind (getattr ''neck'' self_neck) (\<lambda>nk. call (nk zf1))
            else ret zf1) (\<lambda>zf2.
     setattr (\<lambda>s. s\<lparr>self_zf := Some zf2\<rparr>)))))"

subsection \<open>\<^verbatim>\<open>track\<close>\<close>

text \<open>
  \<^verbatim>\<open>track\<close> is decorated with \<^verbatim>\<open>@torch.jit.script_method\<close>, and \<^verbatim>\<open>ModelBuilder\<close> is a plain
  \<^verbatim>\<open>nn.Module\<close>, not a \<^verbatim>\<open>ScriptModule\<close>. With the JIT enabled the decorator leaves a
  \<^verbatim>\<open>ScriptMethodStub\<close> in the class, a named tuple that nothing compiles: \<^verbatim>\<open>m.track(x)\<close>
  raises \<^verbatim>\<open>TypeError\<close> at the call and the body never runs. With the JIT disabled
  (\<^verbatim>\<open>PYTORCH_JIT=0\<close>) the decorator returns the function and the call runs the body.
\<close>

definition script_method :: "('t, 'w) runtime \<Rightarrow> ('s, 'a) prog \<Rightarrow> ('s, 'a) prog" where
  "script_method rt body = (if jit_enabled rt then raise TypeError else body)"

text \<open>
  The locals \<^verbatim>\<open>xf\<close>, \<^verbatim>\<open>xf_n\<close> and \<^verbatim>\<open>mask\<close> of the body are assigned under a flag only, so
  each is an option here and its read goes through \<open>local_var\<close>. In a call
  \<^verbatim>\<open>f(a, b)\<close> Python evaluates \<^verbatim>\<open>f\<close>, then \<^verbatim>\<open>a\<close>, then \<^verbatim>\<open>b\<close>.
\<close>

definition track_body ::
  "('w, 'k) config \<Rightarrow> ('t, 'w) runtime \<Rightarrow> 't pyval \<Rightarrow>
   (('t, 'p) model_builder, 't pydict) prog" where
  "track_body cfg rt x =
     pbind (getattr ''backbone'' self_backbone) (\<lambda>bb.
     pbind (call (bb x)) (\<lambda>xf_local.
     pbind (if MASK_MASK cfg then
              pbind (call (slice_butlast rt xf_local)) (\<lambda>v.
              pbind (setattr (\<lambda>s. s\<lparr>self_xf := Some v\<rparr>)) (\<lambda>_.
              pbind (call (getitem_last rt xf_local)) (\<lambda>l. ret (Some l))))
            else ret None) (\<lambda>xf.
     pbind (if ADJUST_ADJUST cfg then
              pbind (getattr ''neck'' self_neck) (\<lambda>nk.
              pbind (local_var ''xf'' xf) (\<lambda>a.
              pbind (call (nk a)) (\<lambda>r. ret (Some r))))
            else ret None) (\<lambda>xf_n.
     pbind (getattr ''rpn_head'' self_rpn_head) (\<lambda>rh.
     pbind (getattr ''zf'' self_zf) (\<lambda>zf1.
     pbind (local_var ''xf_n'' xf_n) (\<lambda>a1.
     pbind (call (rh zf1 a1)) (\<lambda>(cls, loc).
     pbind (if MASK_MASK cfg then
              pbind (getattr ''mask_head'' self_mask_head) (\<lambda>mh.
              pbind (getattr ''zf'' self_zf) (\<lambda>zf2.
              pbind (local_var ''xf_n'' xf_n) (\<lambda>a2.
              pbind (call (mh zf2 a2)) (\<lambda>(m, corr).
              pbind (setattr (\<lambda>s. s\<lparr>self_mask_corr_feature := Some corr\<rparr>)) (\<lambda>_.
              ret (Some m))))))
            else ret None) (\<lambda>mask.
     pbind (if MASK_MASK cfg then local_var ''mask'' mask else ret PyNone) (\<lambda>mv.
     ret [(''cls'', cls), (''loc'', loc), (''mask'', mv)]))))))))))"

definition track ::
  "('w, 'k) config \<Rightarrow> ('t, 'w) runtime \<Rightarrow> 't pyval \<Rightarrow>
   (('t, 'p) model_builder, 't pydict) prog" where
  "track cfg rt x = script_method rt (track_body cfg rt x)"

subsection \<open>\<^verbatim>\<open>mask_refine\<close> and \<^verbatim>\<open>log_softmax\<close>\<close>

definition mask_refine :: "'p \<Rightarrow> (('t, 'p) model_builder, 't pyval) prog" where
  "mask_refine pos =
     pbind (getattr ''refine_head'' self_refine_head) (\<lambda>rf.
     pbind (getattr ''xf'' self_xf) (\<lambda>a.
     pbind (getattr ''mask_corr_feature'' self_mask_corr_feature) (\<lambda>c.
     call (rf a c pos))))"

definition log_softmax :: "('t, 'w) runtime \<Rightarrow> 't pyval \<Rightarrow> error + 't pyval" where
  \<comment> \<open>reads nothing of \<^verbatim>\<open>self\<close>; \<^verbatim>\<open>b, a2, h, w = cls.size()\<close> needs exactly four sizes\<close>
  "log_softmax rt cls =
     (case cls of
        Tensor t \<Rightarrow>
          (case t_size rt t of
             [b, a2, h, w] \<Rightarrow>
               ebind (t_view rt t [b, 2, a2 div 2, h, w]) (\<lambda>c1.
               ebind (t_permute rt c1 [0, 2, 3, 4, 1]) (\<lambda>c2.
               ebind (F_log_softmax rt (t_contiguous rt c2) 4) (\<lambda>c3.
               Inr (Tensor c3))))
           | _ \<Rightarrow> Inl ValueError)
      | _ \<Rightarrow> Inl (AttributeError ''size''))"

subsection \<open>\<^verbatim>\<open>forward\<close>\<close>

text \<open>
  \<^verbatim>\<open>outputs['total_loss'] += e\<close> reads \<^verbatim>\<open>outputs['total_loss']\<close>, then evaluates \<^verbatim>\<open>e\<close>,
  then adds, then stores.
\<close>

definition forward ::
  "('w, 'k) config \<Rightarrow> ('t, 'w) runtime \<Rightarrow> 't pydict \<Rightarrow>
   (('t, 'p) model_builder, 't pydict) prog" where
  "forward cfg rt data =
     pbind (call (ebind (dict_getitem data ''template'') (py_cuda rt))) (\<lambda>template_v.
     pbind (call (ebind (dict_getitem data ''search'') (py_cuda rt))) (\<lambda>search.
     pbind (call (ebind (dict_getitem data ''label_cls'') (py_cuda rt))) (\<lambda>label_cls.
     pbind (call (ebind (dict_getitem data ''label_loc'') (py_cuda rt))) (\<lambda>label_loc.
     pbind (call (ebind (dict_getitem data ''label_loc_weight'') (py_cuda rt))) (\<lambda>label_loc_weight.
     pbind (getattr ''backbone'' self_backbone) (\<lambda>bb.
     pbind (call (bb template_v)) (\<lambda>zf0.
     pbind (getattr ''backbone'' self_backbone) (\<lambda>bb'.
     pbind (call (bb' search)) (\<lambda>xf0.
     pbind (if MASK_MASK cfg then
              pbind (call (getitem_last rt zf0)) (\<lambda>zl.
              pbind (call (slice_butlast rt xf0)) (\<lambda>xr.
              pbind (setattr (\<lambda>s. s\<lparr>self_xf_refine := Some xr\<rparr>)) (\<lambda>_.
              pbind (call (getitem_last rt xf0)) (\<lambda>xl.
              ret (zl, xl)))))
            else ret (zf0, xf0)) (\<lambda>(zf1, xf1).
     pbind (if ADJUST_ADJUST cfg then
              pbind (getattr ''neck'' self_neck) (\<lambda>nk.
              pbind (call (nk zf1)) (\<lambda>zn.
              pbind (getattr ''neck'' self_neck) (\<lambda>nk'.
              pbind (call (nk' xf1)) (\<lambda>xn.
              ret (zn, xn)))))
            else ret (zf1, xf1)) (\<lambda>(zf, xf).
     pbind (getattr ''rpn_head'' self_rpn_head) (\<lambda>rh.
     pbind (call (rh zf xf)) (\<lambda>(cls0, loc).
     pbind (call (log_softmax rt cls0)) (\<lambda>cls.
     pbind (call (select_cross_entropy_loss rt cls label_cls)) (\<lambda>cls_loss.
     pbind (call (weight_l1_loss rt loc label_loc label_loc_weight)) (\<lambda>loc_loss.
     pbind (call (py_rmul rt (TRAIN_CLS_WEIGHT cfg) cls_loss)) (\<lambda>wc.
     pbind (call (py_rmul rt (TRAIN_LOC_WEIGHT cfg) loc_loss)) (\<lambda>wl.
     pbind (call (py_add rt wc wl)) (\<lambda>total.
     pbind (ret (dict_setitem (dict_setitem (dict_setitem [] ''total_loss'' total)
                    ''cls_loss'' cls_loss) ''loc_loss'' loc_loss)) (\<lambda>outputs.
     if MASK_MASK cfg then
       pbind (getattr ''mask_head'' self_mask_head) (\<lambda>mh.
       pbind (call (mh zf xf)) (\<lambda>(m, corr).
       pbind (setattr (\<lambda>s. s\<lparr>self_mask_corr_feature := Some corr\<rparr>)) (\<lambda>_.
       pbind (ret PyNone) (\<lambda>mask_loss.
       pbind (call (dict_getitem outputs ''total_loss'')) (\<lambda>old.
       pbind (call (py_rmul rt (TRAIN_MASK_WEIGHT cfg) mask_loss)) (\<lambda>wm.
       pbind (call (py_add rt old wm)) (\<lambda>new.
       ret (dict_setitem (dict_setitem outputs ''total_loss'' new)
              ''mask_loss'' mask_loss))))))))
     else ret outputs))))))))))))))))))))"

subsection \<open>\<^verbatim>\<open>save_script\<close>\<close>

text \<open>
  What \<^verbatim>\<open>save_script\<close> leaves behind is a log of events: a file written, a line printed.
  A submodule object is truthy (\<^verbatim>\<open>nn.Module\<close> defines neither \<^verbatim>\<open>__bool__\<close> nor
  \<^verbatim>\<open>__len__\<close>), so \<^verbatim>\<open>if self.neck:\<close> is the read of the attribute and nothing more.
\<close>

datatype event = Saved string submodule | Printed string

definition os_path_join :: "string \<Rightarrow> string \<Rightarrow> string" where
  \<comment> \<open>\<^verbatim>\<open>os.path.join(a, b)\<close> of \<^verbatim>\<open>posixpath\<close>\<close>
  "os_path_join a b =
     (if b \<noteq> [] \<and> hd b = CHR ''/'' then b
      else if a = [] \<or> last a = CHR ''/'' then a @ b
      else a @ ''/'' @ b)"

definition truthy_attr :: "string \<Rightarrow> 'a option \<Rightarrow> ('s, bool) prog" where
  \<comment> \<open>\<^verbatim>\<open>if self.name:\<close> for a submodule attribute\<close>
  "truthy_attr name a = (case a of None \<Rightarrow> raise (AttributeError name) | Some _ \<Rightarrow> ret True)"

definition export_script ::
  "('t, 'w) runtime \<Rightarrow> submodule \<Rightarrow> string \<Rightarrow> string \<Rightarrow> string \<Rightarrow> (event list, unit) prog" where
  \<comment> \<open>\<^verbatim>\<open>torch.jit.script(self.m).save(join(save_path, file)); print(label.format(...))\<close>\<close>
  "export_script rt m save_path file label =
     pbind (call (jit_script rt m)) (\<lambda>_.
     pbind (call (script_save rt m (os_path_join save_path file))) (\<lambda>_.
     pbind (setattr (\<lambda>out. out @ [Saved (os_path_join save_path file) m])) (\<lambda>_.
     setattr (\<lambda>out. out @ [Printed (label @ os_path_join save_path file)]))))"

definition save_script ::
  "('t, 'w) runtime \<Rightarrow> string \<Rightarrow> ('t, 'p) model_builder \<Rightarrow> (error + unit) \<times> event list" where
  "save_script rt save_path s =
     (pbind (truthy_attr ''backbone'' (self_backbone s)) (\<lambda>_.
      pbind (export_script rt Backbone save_path ''back_bone.pt'' ''Save backbone as '') (\<lambda>_.
      pbind (truthy_attr ''neck'' (self_neck s)) (\<lambda>has_neck.
      pbind (if has_neck then
               export_script rt Neck save_path ''neck.pt'' ''Save neckscript as ''
             else ret ()) (\<lambda>_.
      pbind (truthy_attr ''rpn_head'' (self_rpn_head s)) (\<lambda>has_rpn.
      pbind (if has_rpn then
               export_script rt RpnHead save_path ''rpn_head.pt'' ''Save rpn_head_script as ''
             else ret ()) (\<lambda>_.
      pbind (truthy_attr ''mask_head'' (self_mask_head s)) (\<lambda>has_mask.
      if has_mask then
        pbind (export_script rt MaskHead save_path ''mask_head.pt''
                 ''Save mask_head_script as '') (\<lambda>_.
        pbind (truthy_attr ''refine_head'' (self_refine_head s)) (\<lambda>has_refine.
        if has_refine then
          export_script rt RefineHead save_path ''refine_head.pt''
            ''Save refine_head_script as ''
        else ret ()))
      else ret ())))))))) []"

subsection \<open>Sessions\<close>

text \<open>A session is a sequence of method calls on one object; \<open>run\<close> gives the object after it.\<close>

datatype ('t, 'p) method_call =
    Template "'t pyval"
  | Track "'t pyval"
  | MaskRefine 'p
  | LogSoftmax "'t pyval"
  | Forward "'t pydict"
  | SaveScript string

fun step ::
  "('w, 'k) config \<Rightarrow> ('t, 'w) runtime \<Rightarrow> ('t, 'p) method_call \<Rightarrow>
   ('t, 'p) model_builder \<Rightarrow> ('t, 'p) model_builder" where
  "step cfg rt (Template z) s = snd (template cfg rt z s)"
| "step cfg rt (Track x) s = snd (track cfg rt x s)"
| "step cfg rt (MaskRefine pos) s = snd (mask_refine pos s)"
| "step cfg rt (LogSoftmax cls) s = s"
| "step cfg rt (Forward data) s = snd (forward cfg rt data s)"
| "step cfg rt (SaveScript save_path) s = s"

fun run ::
  "('w, 'k) config \<Rightarrow> ('t, 'w) runtime \<Rightarrow> ('t, 'p) method_call list \<Rightarrow>
   ('t, 'p) model_builder \<Rightarrow> ('t, 'p) model_builder" where
  "run cfg rt [] s = s"
| "run cfg rt (c # cs) s = run cfg rt cs (step cfg rt c s)"

section \<open>Auxiliary definitions\<close>

subsection \<open>Statements that leave an observation of the object alone\<close>

definition frame :: "('s \<Rightarrow> 'g) \<Rightarrow> ('s, 'a) prog \<Rightarrow> bool" where
  \<comment> \<open>running \<open>m\<close>, to completion or to a raise, does not change what \<open>g\<close> reads\<close>
  "frame g m = (\<forall>s. g (snd (m s)) = g s)"

definition never_returns :: "('s, 'a) prog \<Rightarrow> bool" where
  \<comment> \<open>from every object, \<open>m\<close> ends in a raise\<close>
  "never_returns m = (\<forall>s. \<exists>e. fst (m s) = Inl e)"

definition submodules ::
  "('t, 'p) model_builder \<Rightarrow>
   't unary option \<times> 't unary option \<times> 't head option \<times> 't head option \<times>
   ('t, 'p) refiner option" where
  "submodules s =
     (self_backbone s, self_neck s, self_rpn_head s, self_mask_head s, self_refine_head s)"

definition track_inputs ::
  "('t, 'p) model_builder \<Rightarrow>
   't unary option \<times> 't unary option \<times> 't head option \<times> 't head option \<times> 't pyval option" where
  \<comment> \<open>the attributes \<^verbatim>\<open>track\<close> reads\<close>
  "track_inputs s =
     (self_backbone s, self_neck s, self_rpn_head s, self_mask_head s, self_zf s)"

fun is_template :: "('t, 'p) method_call \<Rightarrow> bool" where
  "is_template (Template z) = True"
| "is_template _ = False"

subsection \<open>A small concrete instance\<close>

text \<open>
  Tensors are natural numbers here. The \<^verbatim>\<open>resnet50\<close> backbone returns a list of three
  feature maps, the \<^verbatim>\<open>alexnet\<close> backbone a single one; the heads are defined on single
  feature maps.
\<close>

definition toy_resnet :: "nat unary" where
  "toy_resnet v =
     (case v of
        Tensor n \<Rightarrow> Inr (PyList [Tensor (n + 1), Tensor (n + 2), Tensor (n + 3)])
      | _ \<Rightarrow> Inl (RuntimeError ''backbone''))"

definition toy_alexnet :: "nat unary" where
  "toy_alexnet v =
     (case v of Tensor n \<Rightarrow> Inr (Tensor (n + 7)) | _ \<Rightarrow> Inl (RuntimeError ''backbone''))"

definition toy_neck :: "nat unary" where
  "toy_neck v =
     (case v of Tensor n \<Rightarrow> Inr (Tensor (10 * n)) | _ \<Rightarrow> Inl (RuntimeError ''neck''))"

definition toy_rpn :: "nat head" where
  "toy_rpn z x =
     (case (z, x) of
        (Tensor a, Tensor b) \<Rightarrow> Inr (Tensor (a + b), Tensor (a * b))
      | _ \<Rightarrow> Inl (RuntimeError ''rpn_head''))"

definition toy_mask :: "nat head" where
  "toy_mask z x =
     (case (z, x) of
        (Tensor a, Tensor b) \<Rightarrow> Inr (Tensor (a + b + 1), Tensor (a + 2 * b))
      | _ \<Rightarrow> Inl (RuntimeError ''mask_head''))"

definition toy_refine :: "(nat, nat) refiner" where
  "toy_refine f c pos =
     (case (f, c) of
        (PyList fs, Tensor b) \<Rightarrow> Inr (PyList (fs @ [Tensor (b + pos)]))
      | (Tensor a, Tensor b) \<Rightarrow> Inr (Tensor (a + b + pos))
      | _ \<Rightarrow> Inl (RuntimeError ''refine_head''))"

definition toy_factories :: "(nat, nat, unit) factories" where
  "toy_factories =
     \<lparr>get_backbone = (\<lambda>t _. if t = ''resnet50'' then Inr toy_resnet
                            else if t = ''alexnet'' then Inr toy_alexnet
                            else Inl (KeyError t)),
      get_neck = (\<lambda>_ _. Inr toy_neck),
      get_rpn_head = (\<lambda>_ _. Inr toy_rpn),
      get_mask_head = (\<lambda>_ _. Inr toy_mask),
      get_refine_head = (\<lambda>_. Inr toy_refine)\<rparr>"

definition toy_cfg :: "bool \<Rightarrow> bool \<Rightarrow> bool \<Rightarrow> (nat, unit) config" where
  \<comment> \<open>the three flags \<^verbatim>\<open>MASK.MASK\<close>, \<^verbatim>\<open>ADJUST.ADJUST\<close>, \<^verbatim>\<open>REFINE.REFINE\<close>, in this order\<close>
  "toy_cfg m a r =
     \<lparr>BACKBONE_TYPE = (if m then ''resnet50'' else ''alexnet''), BACKBONE_KWARGS = (),
      ADJUST_ADJUST = a, ADJUST_TYPE = ''AdjustLayer'', ADJUST_KWARGS = (),
      RPN_TYPE = ''DepthwiseRPN'', RPN_KWARGS = (),
      MASK_MASK = m, MASK_TYPE = ''MaskCorr'', MASK_KWARGS = (),
      REFINE_REFINE = r, REFINE_TYPE = ''Refine'',
      TRAIN_CLS_WEIGHT = 1, TRAIN_LOC_WEIGHT = 2, TRAIN_MASK_WEIGHT = 3\<rparr>"

definition toy_rt :: "(nat, nat) runtime" where
  "toy_rt =
     \<lparr>t_getitem_last = (\<lambda>t. Inl IndexError), t_slice_butlast = (\<lambda>t. Inl IndexError),
      t_cuda = Inr, t_size = (\<lambda>t. [1, 10, 5, 5]), t_view = (\<lambda>t sz. Inr t),
      t_permute = (\<lambda>t p. Inr t), t_contiguous = (\<lambda>t. t),
      F_log_softmax = (\<lambda>t d. Inr (t + 100)),
      t_rmul = (\<lambda>w t. w * t), t_add = (\<lambda>a b. Inr (a + b)),
      select_cross_entropy_loss =
        (\<lambda>c l. case (c, l) of (Tensor a, Tensor b) \<Rightarrow> Inr (Tensor (a + b))
                | _ \<Rightarrow> Inl (RuntimeError ''loss'')),
      weight_l1_loss =
        (\<lambda>p l w. case (p, l, w) of (Tensor a, Tensor b, Tensor c) \<Rightarrow> Inr (Tensor (a + b * c))
                  | _ \<Rightarrow> Inl (RuntimeError ''loss'')),
      jit_script = (\<lambda>m. Inr ()), script_save = (\<lambda>m p. Inr ()),
      jit_enabled = False\<rparr>"

definition toy_data :: "nat pydict" where
  "toy_data =
     [(''template'', Tensor 1), (''search'', Tensor 2), (''label_cls'', Tensor 3),
      (''label_loc'', Tensor 4), (''label_loc_weight'', Tensor 5)]"

definition toy_model :: "bool \<Rightarrow> bool \<Rightarrow> bool \<Rightarrow> (nat, nat) model_builder" where
  \<comment> \<open>the object \<^verbatim>\<open>ModelBuilder()\<close> builds under \<open>toy_cfg m a r\<close> (lemma \<open>init_toy\<close>)\<close>
  "toy_model m a r =
     \<lparr>self_backbone = Some (if m then toy_resnet else toy_alexnet),
      self_neck = (if a then Some toy_neck else None),
      self_rpn_head = Some toy_rpn,
      self_mask_head = (if m then Some toy_mask else None),
      self_refine_head = (if m \<and> r then Some toy_refine else None),
      self_zf = None, self_xf = None, self_mask_corr_feature = None, self_xf_refine = None\<rparr>"



section \<open>Basic facts\<close>

lemmas prog_defs =
  pbind_def ret_def raise_def call_def getattr_def setattr_def local_var_def ebind_def

lemmas track_defs = track_def script_method_def track_body_def

lemmas op_defs =
  getitem_last_def slice_butlast_def py_cuda_def py_rmul_def py_add_def dict_getitem_def
  log_softmax_def

lemmas toy_defs =
  toy_resnet_def toy_alexnet_def toy_neck_def toy_rpn_def toy_mask_def toy_refine_def
  toy_factories_def toy_cfg_def toy_rt_def toy_data_def toy_model_def

lemma init_toy: "init (toy_cfg m a r) toy_factories = Inr (toy_model m a r)"
  by (simp add: init_def init_body_def fresh_module_def prog_defs toy_factories_def
      toy_cfg_def toy_model_def)

subsection \<open>Frame rules\<close>

lemma frame_ret: "frame g (ret v)"
  by (simp add: frame_def ret_def)

lemma frame_raise: "frame g (raise e)"
  by (simp add: frame_def raise_def)

lemma frame_call: "frame g (call r)"
  by (simp add: frame_def call_def)

lemma frame_getattr: "frame g (getattr n f)"
  by (simp add: frame_def getattr_def split: option.splits)

lemma frame_local_var: "frame g (local_var n v)"
  by (simp add: local_var_def frame_ret frame_raise split: option.splits)

lemma frame_setattr: "(\<And>s. g (upd s) = g s) \<Longrightarrow> frame g (setattr upd)"
  by (simp add: frame_def setattr_def)

lemma frame_pbind: "frame g m \<Longrightarrow> (\<And>v. frame g (f v)) \<Longrightarrow> frame g (pbind m f)"
  by (auto simp: frame_def pbind_def split: prod.splits sum.splits) (metis snd_conv)+

lemma frame_if: "(c \<Longrightarrow> frame g a) \<Longrightarrow> (\<not> c \<Longrightarrow> frame g b) \<Longrightarrow> frame g (if c then a else b)"
  by simp

lemma frame_case_prod: "(\<And>a b. frame g (f a b)) \<Longrightarrow> frame g (case p of (a, b) \<Rightarrow> f a b)"
  by (cases p) simp

lemmas frame_rules =
  frame_pbind frame_if frame_case_prod frame_ret frame_raise frame_call frame_getattr
  frame_local_var frame_setattr

lemma template_frame_submodules: "frame submodules (template cfg rt z)"
  unfolding template_def by (intro frame_rules) (simp_all add: submodules_def)

lemma track_frame_submodules: "frame submodules (track cfg rt x)"
  unfolding track_defs by (intro frame_rules) (simp_all add: submodules_def)

lemma mask_refine_frame_any: "frame g (mask_refine pos)"
  unfolding mask_refine_def by (intro frame_rules)

lemma forward_frame_submodules: "frame submodules (forward cfg rt d)"
  unfolding forward_def by (intro frame_rules) (simp_all add: submodules_def)

lemma frameD: "frame g m \<Longrightarrow> g (snd (m s)) = g s"
  by (simp add: frame_def)

lemma step_submodules: "submodules (step cfg rt c s) = submodules s"
  by (cases c)
    (simp_all add: frameD[OF template_frame_submodules] frameD[OF track_frame_submodules]
       frameD[OF mask_refine_frame_any] frameD[OF forward_frame_submodules])

lemma run_submodules: "submodules (run cfg rt cs s) = submodules s"
  by (induction cs arbitrary: s) (simp_all add: step_submodules)

lemma track_frame_zf: "frame self_zf (track cfg rt x)"
  unfolding track_defs by (intro frame_rules) simp_all

lemma forward_frame_zf: "frame self_zf (forward cfg rt d)"
  unfolding forward_def by (intro frame_rules) simp_all

lemma forward_frame_track_inputs: "frame track_inputs (forward cfg rt d)"
  unfolding forward_def by (intro frame_rules) (simp_all add: track_inputs_def)

lemma init_body_shape:
  "init_body cfg fs fresh_module = (Inr u, m) \<Longrightarrow>
   self_backbone m \<noteq> None \<and> self_rpn_head m \<noteq> None \<and>
   (self_neck m \<noteq> None \<longleftrightarrow> ADJUST_ADJUST cfg) \<and>
   (self_mask_head m \<noteq> None \<longleftrightarrow> MASK_MASK cfg) \<and>
   (self_refine_head m \<noteq> None \<longleftrightarrow> (MASK_MASK cfg \<and> REFINE_REFINE cfg))"
  by (auto simp: init_body_def fresh_module_def prog_defs split: sum.splits if_splits)

lemma track_result_inputs:
  "track_inputs s = track_inputs s' \<Longrightarrow> fst (track cfg rt x s) = fst (track cfg rt x s')"
  by (auto simp: track_inputs_def track_defs prog_defs split: option.splits sum.splits prod.splits)

lemma forward_frame_rest:
  "frame (\<lambda>s. (submodules s, self_zf s, self_xf s)) (forward cfg rt d)"
  unfolding forward_def by (intro frame_rules) (simp_all add: submodules_def)

lemma forward_no_mask_pure:
  assumes "\<not> MASK_MASK cfg"
  shows "frame (\<lambda>s. s) (forward cfg rt d)"
  unfolding forward_def using assms by (intro frame_rules) simp_all

subsection \<open>Traces of \<^verbatim>\<open>track\<close>, \<^verbatim>\<open>template\<close> and \<^verbatim>\<open>mask_refine\<close>\<close>

lemma track_jit_enabled:
  "jit_enabled rt \<Longrightarrow> track cfg rt x s = (Inl TypeError, s)"
  by (simp add: track_def script_method_def raise_def)

lemma track_both_flags:
  assumes "\<not> jit_enabled rt" "MASK_MASK cfg" "ADJUST_ADJUST cfg"
    and "self_backbone s = Some bb" "bb x = Inr xf_local"
    and "slice_butlast rt xf_local = Inr xr" "getitem_last rt xf_local = Inr xl"
    and "self_neck s = Some nk" "nk xl = Inr xn"
    and "self_rpn_head s = Some rh" "self_zf s = Some z" "rh z xn = Inr (cls, loc)"
    and "self_mask_head s = Some mh" "mh z xn = Inr (m, corr)"
  shows "track cfg rt x s =
           (Inr [(''cls'', cls), (''loc'', loc), (''mask'', m)],
            s\<lparr>self_xf := Some xr, self_mask_corr_feature := Some corr\<rparr>)"
  using assms by (simp add: track_defs prog_defs)

lemma track_fails_without_flag:
  "\<not> (MASK_MASK cfg \<and> ADJUST_ADJUST cfg) \<Longrightarrow> \<exists>e. fst (track cfg rt x s) = Inl e"
  by (auto simp: track_defs prog_defs split: option.splits sum.splits prod.splits)

lemma track_fails_without_zf:
  "self_zf s = None \<Longrightarrow> \<exists>e. fst (track cfg rt x s) = Inl e"
  by (auto simp: track_defs prog_defs split: option.splits sum.splits prod.splits)

lemma track_zf_only_at_read:
  "self_zf s = None \<Longrightarrow>
   fst (track cfg rt x s) = Inl (AttributeError ''zf'') \<or>
   fst (track cfg rt x s) = fst (track cfg rt x (s\<lparr>self_zf := Some v\<rparr>))"
  by (auto simp: track_defs prog_defs split: option.splits sum.splits prod.splits)

lemma track_no_zf_both_flags:
  assumes "\<not> jit_enabled rt" "MASK_MASK cfg" "ADJUST_ADJUST cfg"
    and "self_backbone s = Some bb" "bb x = Inr xf_local"
    and "slice_butlast rt xf_local = Inr xr" "getitem_last rt xf_local = Inr xl"
    and "self_neck s = Some nk" "nk xl = Inr xn"
    and "self_rpn_head s = Some rh" "self_zf s = None"
  shows "track cfg rt x s = (Inl (AttributeError ''zf''), s\<lparr>self_xf := Some xr\<rparr>)"
  using assms by (simp add: track_defs prog_defs)

lemma track_unbound_xf:
  assumes "\<not> jit_enabled rt" "\<not> MASK_MASK cfg" "ADJUST_ADJUST cfg"
    and "self_backbone s = Some bb" "bb x = Inr xf_local" "self_neck s = Some nk"
  shows "track cfg rt x s = (Inl (UnboundLocalError ''xf''), s)"
  using assms by (simp add: track_defs prog_defs)

lemma track_unbound_xf_n:
  assumes "\<not> jit_enabled rt" "\<not> ADJUST_ADJUST cfg"
    and "self_backbone s = Some bb" "bb x = Inr xf_local"
    and "MASK_MASK cfg \<longrightarrow> (\<exists>a b. slice_butlast rt xf_local = Inr a \<and> getitem_last rt xf_local = Inr b)"
    and "self_rpn_head s = Some rh"
  shows "fst (track cfg rt x s) =
           Inl (if self_zf s = None then AttributeError ''zf'' else UnboundLocalError ''xf_n'')"
  using assms by (auto simp: track_defs prog_defs split: option.splits)

lemma template_ok:
  assumes "self_backbone s = Some bb" "bb z = Inr f"
    and "if MASK_MASK cfg then getitem_last rt f = Inr f1 else f1 = f"
    and "if ADJUST_ADJUST cfg then (\<exists>nk. self_neck s = Some nk \<and> nk f1 = Inr e) else e = f1"
  shows "template cfg rt z s = (Inr (), s\<lparr>self_zf := Some e\<rparr>)"
  using assms by (auto simp: template_def prog_defs split: if_splits)

lemma template_frame_rest:
  "frame (\<lambda>s. (submodules s, self_xf s, self_mask_corr_feature s, self_xf_refine s)) (template cfg rt z)"
  unfolding template_def by (intro frame_rules) (simp_all add: submodules_def)

lemma step_zf: "\<not> is_template c \<Longrightarrow> self_zf (step cfg rt c s) = self_zf s"
  by (cases c) (simp_all add: frameD[OF track_frame_zf] frameD[OF forward_frame_zf]
       frameD[OF mask_refine_frame_any])

lemma run_zf: "\<forall>c \<in> set cs. \<not> is_template c \<Longrightarrow> self_zf (run cfg rt cs s) = self_zf s"
  by (induction cs arbitrary: s) (simp_all add: step_zf)

lemma run_append: "run cfg rt (as @ bs) s = run cfg rt bs (run cfg rt as s)"
  by (induction as arbitrary: s) simp_all



section \<open>Construction and the submodules (C3)\<close>

text \<open>
  C3. After \<^verbatim>\<open>__init__\<close> the object has a backbone and an rpn head, a neck iff
  \<^verbatim>\<open>cfg.ADJUST.ADJUST\<close>, a mask head iff \<^verbatim>\<open>cfg.MASK.MASK\<close>, and a refine head iff both
  \<^verbatim>\<open>cfg.MASK.MASK\<close> and \<^verbatim>\<open>cfg.REFINE.REFINE\<close>; and after any sequence of calls of
  \<^verbatim>\<open>template\<close>, \<^verbatim>\<open>track\<close>, \<^verbatim>\<open>forward\<close>, \<^verbatim>\<open>mask_refine\<close>, \<^verbatim>\<open>log_softmax\<close> and
  \<^verbatim>\<open>save_script\<close>, whether they return or raise, each of the five attributes holds what
  it held after \<^verbatim>\<open>__init__\<close>.
\<close>

theorem submodules_fixed_at_init:
  assumes "init cfg fs = Inr m"
  shows "self_backbone m \<noteq> None \<and> self_rpn_head m \<noteq> None \<and>
         (self_neck m \<noteq> None \<longleftrightarrow> ADJUST_ADJUST cfg) \<and>
         (self_mask_head m \<noteq> None \<longleftrightarrow> MASK_MASK cfg) \<and>
         (self_refine_head m \<noteq> None \<longleftrightarrow> (MASK_MASK cfg \<and> REFINE_REFINE cfg)) \<and>
         self_backbone (run cfg rt calls m) = self_backbone m \<and>
         self_neck (run cfg rt calls m) = self_neck m \<and>
         self_rpn_head (run cfg rt calls m) = self_rpn_head m \<and>
         self_mask_head (run cfg rt calls m) = self_mask_head m \<and>
         self_refine_head (run cfg rt calls m) = self_refine_head m"
proof -
  from assms obtain u where body: "init_body cfg fs fresh_module = (Inr u, m)"
    by (auto simp: init_def split: prod.splits sum.splits)
  have kept: "submodules (run cfg rt calls m) = submodules m"
    by (rule run_submodules)
  show ?thesis
    using init_body_shape[OF body] kept by (simp add: submodules_def)
qed

theorem submodules_fixed_at_init_witness:
  "init (toy_cfg True False True) toy_factories = Inr (toy_model True False True) \<and>
   self_backbone (toy_model True False True) \<noteq> None \<and>
   self_neck (toy_model True False True) = None \<and>
   self_mask_head (toy_model True False True) \<noteq> None \<and>
   self_refine_head (toy_model True False True) \<noteq> None \<and>
   self_neck (run (toy_cfg True False True) toy_rt
      [Template (Tensor 0), Track (Tensor 5), Forward toy_data, MaskRefine 4, SaveScript ''out'']
      (toy_model True False True)) = self_neck (toy_model True False True)"
proof -
  have h: "init (toy_cfg True False True) toy_factories = Inr (toy_model True False True)"
    by (rule init_toy)
  show ?thesis
    using h submodules_fixed_at_init[OF h, of toy_rt
      "[Template (Tensor 0), Track (Tensor 5), Forward toy_data, MaskRefine 4, SaveScript ''out'']"]
    by (simp add: toy_cfg_def)
qed

section \<open>The training pass and the cached template embedding (C10)\<close>

text \<open>
  C10. \<^verbatim>\<open>forward(data)\<close> never modifies \<^verbatim>\<open>self.zf\<close>: whether it returns or raises, the
  only attributes it may have written are \<^verbatim>\<open>self.xf_refine\<close> and
  \<^verbatim>\<open>self.mask_corr_feature\<close>, and without the mask flag it writes nothing. So
  \<^verbatim>\<open>self.zf\<close> after \<^verbatim>\<open>forward\<close> is \<^verbatim>\<open>self.zf\<close> before it, and a \<^verbatim>\<open>track(x)\<close> that follows
  yields what it would have yielded without the \<^verbatim>\<open>forward\<close> call in between.
\<close>

theorem forward_keeps_zf:
  "self_zf (snd (forward cfg rt data s)) = self_zf s \<and>
   (\<exists>a b. snd (forward cfg rt data s) = s\<lparr>self_mask_corr_feature := a, self_xf_refine := b\<rparr>) \<and>
   (\<not> MASK_MASK cfg \<longrightarrow> snd (forward cfg rt data s) = s) \<and>
   fst (track cfg rt x (snd (forward cfg rt data s))) = fst (track cfg rt x s)"
proof -
  let ?s' = "snd (forward cfg rt data s)"
  have zf: "self_zf ?s' = self_zf s"
    by (rule frameD[OF forward_frame_zf])
  have rest: "(submodules ?s', self_zf ?s', self_xf ?s') = (submodules s, self_zf s, self_xf s)"
    by (rule frameD[OF forward_frame_rest])
  have "?s' = s\<lparr>self_mask_corr_feature := self_mask_corr_feature ?s',
                 self_xf_refine := self_xf_refine ?s'\<rparr>"
    using rest by (intro model_builder.equality) (simp_all add: submodules_def)
  then have writes: "\<exists>a b. ?s' = s\<lparr>self_mask_corr_feature := a, self_xf_refine := b\<rparr>"
    by blast
  have pure: "\<not> MASK_MASK cfg \<longrightarrow> ?s' = s"
    using frameD[OF forward_no_mask_pure, of cfg rt data s] by blast
  have "track_inputs ?s' = track_inputs s"
    by (rule frameD[OF forward_frame_track_inputs])
  then have tr: "fst (track cfg rt x ?s') = fst (track cfg rt x s)"
    by (rule track_result_inputs)
  show ?thesis using zf writes pure tr by blast
qed

theorem forward_keeps_zf_witness:
  "\<not> MASK_MASK (toy_cfg False True False) \<and>
   self_zf (snd (forward (toy_cfg False True False) toy_rt toy_data
      ((toy_model False True False)\<lparr>self_zf := Some (Tensor 80)\<rparr>))) = Some (Tensor 80) \<and>
   snd (forward (toy_cfg False True False) toy_rt toy_data
      ((toy_model False True False)\<lparr>self_zf := Some (Tensor 80)\<rparr>))
     = (toy_model False True False)\<lparr>self_zf := Some (Tensor 80)\<rparr>"
  using forward_keeps_zf[of "toy_cfg False True False" toy_rt toy_data
      "(toy_model False True False)\<lparr>self_zf := Some (Tensor 80)\<rparr>" "Tensor 5"]
  by (simp add: toy_cfg_def)

section \<open>What \<^verbatim>\<open>template\<close> caches (C2)\<close>

text \<open>
  C2. \<^verbatim>\<open>template(z)\<close> stores in \<^verbatim>\<open>self.zf\<close> the backbone's output for \<open>z\<close>, reduced to
  its last element when \<^verbatim>\<open>cfg.MASK.MASK\<close> is set and passed through the neck when
  \<^verbatim>\<open>cfg.ADJUST.ADJUST\<close> is set, and returns nothing. The hypotheses say that the
  collaborators called on the way return: the backbone returns \<open>f\<close>, \<open>f1\<close> is \<open>f\<close> or
  its last element, \<open>e\<close> is \<open>f1\<close> or the neck's output for it. Where the body of
  \<^verbatim>\<open>track\<close> runs (the JIT disabled) and completes, a \<^verbatim>\<open>track(x)\<close> that follows hands this
  \<open>e\<close> to the rpn head and to the mask head as their first argument.
\<close>

theorem template_caches_embedding:
  assumes "self_backbone s = Some bb" and "bb z = Inr f"
    and "if MASK_MASK cfg then getitem_last rt f = Inr f1 else f1 = f"
    and "if ADJUST_ADJUST cfg then (\<exists>nk. self_neck s = Some nk \<and> nk f1 = Inr e) else e = f1"
  shows "template cfg rt z s = (Inr (), s\<lparr>self_zf := Some e\<rparr>) \<and>
         (\<forall>x xf_local xr xl nk xn rh cls loc mh m corr.
            \<not> jit_enabled rt \<and>
            MASK_MASK cfg \<and> ADJUST_ADJUST cfg \<and> bb x = Inr xf_local \<and>
            slice_butlast rt xf_local = Inr xr \<and> getitem_last rt xf_local = Inr xl \<and>
            self_neck s = Some nk \<and> nk xl = Inr xn \<and>
            self_rpn_head s = Some rh \<and> rh e xn = Inr (cls, loc) \<and>
            self_mask_head s = Some mh \<and> mh e xn = Inr (m, corr) \<longrightarrow>
            fst (track cfg rt x (snd (template cfg rt z s)))
              = Inr [(''cls'', cls), (''loc'', loc), (''mask'', m)])"
proof -
  have t: "template cfg rt z s = (Inr (), s\<lparr>self_zf := Some e\<rparr>)"
    using assms by (rule template_ok)
  show ?thesis
  proof (intro conjI allI impI)
    show "template cfg rt z s = (Inr (), s\<lparr>self_zf := Some e\<rparr>)" by (rule t)
  next
    fix x xf_local xr xl nk xn rh cls loc mh m corr
    assume h: "\<not> jit_enabled rt \<and>
            MASK_MASK cfg \<and> ADJUST_ADJUST cfg \<and> bb x = Inr xf_local \<and>
            slice_butlast rt xf_local = Inr xr \<and> getitem_last rt xf_local = Inr xl \<and>
            self_neck s = Some nk \<and> nk xl = Inr xn \<and>
            self_rpn_head s = Some rh \<and> rh e xn = Inr (cls, loc) \<and>
            self_mask_head s = Some mh \<and> mh e xn = Inr (m, corr)"
    have "track cfg rt x (s\<lparr>self_zf := Some e\<rparr>) =
            (Inr [(''cls'', cls), (''loc'', loc), (''mask'', m)],
             s\<lparr>self_zf := Some e\<rparr>\<lparr>self_xf := Some xr, self_mask_corr_feature := Some corr\<rparr>)"
      using h assms(1) by (intro track_both_flags[where bb=bb and nk=nk and rh=rh and mh=mh and z=e and xn=xn and xl=xl and xf_local=xf_local]) simp_all
    then show "fst (track cfg rt x (snd (template cfg rt z s)))
              = Inr [(''cls'', cls), (''loc'', loc), (''mask'', m)]"
      by (simp add: t)
  qed
qed

theorem template_caches_embedding_witness:
  "\<not> jit_enabled toy_rt \<and>
   self_backbone (toy_model True True False) = Some toy_resnet \<and>
   toy_resnet (Tensor 0) = Inr (PyList [Tensor 1, Tensor 2, Tensor 3]) \<and>
   getitem_last toy_rt (PyList [Tensor 1, Tensor 2, Tensor 3]) = Inr (Tensor 3) \<and>
   self_neck (toy_model True True False) = Some toy_neck \<and>
   toy_neck (Tensor 3) = Inr (Tensor 30) \<and>
   template (toy_cfg True True False) toy_rt (Tensor 0) (toy_model True True False)
     = (Inr (), (toy_model True True False)\<lparr>self_zf := Some (Tensor 30)\<rparr>) \<and>
   fst (track (toy_cfg True True False) toy_rt (Tensor 5)
         (snd (template (toy_cfg True True False) toy_rt (Tensor 0) (toy_model True True False))))
     = Inr [(''cls'', Tensor 110), (''loc'', Tensor 2400), (''mask'', Tensor 111)]"
proof -
  have j: "\<not> jit_enabled toy_rt"
    by (simp add: toy_rt_def)
  have h1: "self_backbone (toy_model True True False) = Some toy_resnet"
    by (simp add: toy_model_def)
  have h2: "toy_resnet (Tensor 0) = Inr (PyList [Tensor 1, Tensor 2, Tensor 3])"
    by (simp add: toy_resnet_def)
  have g: "getitem_last toy_rt (PyList [Tensor 1, Tensor 2, Tensor 3]) = Inr (Tensor (3::nat))"
    by (simp add: getitem_last_def)
  have h3: "if MASK_MASK (toy_cfg True True False)
            then getitem_last toy_rt (PyList [Tensor 1, Tensor 2, Tensor 3]) = Inr (Tensor (3::nat))
            else Tensor 3 = PyList [Tensor 1, Tensor 2, Tensor (3::nat)]"
    using g by (simp add: toy_cfg_def)
  have n1: "self_neck (toy_model True True False) = Some toy_neck"
    by (simp add: toy_model_def)
  have n2: "toy_neck (Tensor 3) = Inr (Tensor 30)"
    by (simp add: toy_neck_def)
  have h4: "if ADJUST_ADJUST (toy_cfg True True False)
            then (\<exists>nk. self_neck (toy_model True True False) = Some nk \<and> nk (Tensor 3) = Inr (Tensor 30))
            else Tensor (30::nat) = Tensor 3"
    using n1 n2 by (simp add: toy_cfg_def)
  note T = template_caches_embedding[OF h1 h2 h3 h4]
  have c1: "template (toy_cfg True True False) toy_rt (Tensor 0) (toy_model True True False)
     = (Inr (), (toy_model True True False)\<lparr>self_zf := Some (Tensor 30)\<rparr>)"
    using T by blast
  have c2: "fst (track (toy_cfg True True False) toy_rt (Tensor 5)
         (snd (template (toy_cfg True True False) toy_rt (Tensor 0) (toy_model True True False))))
     = Inr [(''cls'', Tensor 110), (''loc'', Tensor 2400), (''mask'', Tensor 111)]"
    using T[THEN conjunct2, rule_format, of "Tensor 5" "PyList [Tensor 6, Tensor 7, Tensor 8]"
        "PyList [Tensor 6, Tensor 7]" "Tensor 8" toy_neck "Tensor 80" toy_rpn
        "Tensor 110" "Tensor 2400" toy_mask "Tensor 111" "Tensor 190"]
    by (simp add: toy_defs op_defs)
  show ?thesis using j h1 h2 g n1 n2 c1 c2 by blast
qed

section \<open>\<^verbatim>\<open>track\<close> returns no dictionary (C1)\<close>

text \<open>
  C1, at configurations where it fails. With the JIT disabled, \<^verbatim>\<open>cfg.MASK.MASK\<close> unset and
  \<^verbatim>\<open>cfg.ADJUST.ADJUST\<close> set, on the object \<^verbatim>\<open>__init__\<close> builds and after a \<^verbatim>\<open>template\<close>
  call that completed, \<^verbatim>\<open>track\<close> returns no dictionary: the neck call reads the local
  \<^verbatim>\<open>xf\<close>, which only the mask branch assigns. With the JIT enabled \<^verbatim>\<open>track\<close> returns no
  dictionary under any flags, here with all three set: the call raises \<^verbatim>\<open>TypeError\<close>
  and leaves the object as it was. Lemma \<open>track_both_flags\<close> is the part of C1 that
  holds: the result of the body when it runs with both flags set.
\<close>

theorem track_without_mask_unbound_xf:
  "init (toy_cfg False True False) toy_factories = Inr (toy_model False True False) \<and>
   template (toy_cfg False True False) toy_rt (Tensor 0) (toy_model False True False)
     = (Inr (), (toy_model False True False)\<lparr>self_zf := Some (Tensor 70)\<rparr>) \<and>
   track (toy_cfg False True False) toy_rt (Tensor 5)
       ((toy_model False True False)\<lparr>self_zf := Some (Tensor 70)\<rparr>)
     = (Inl (UnboundLocalError ''xf''), (toy_model False True False)\<lparr>self_zf := Some (Tensor 70)\<rparr>) \<and>
   \<not> jit_enabled toy_rt \<and>
   track (toy_cfg True True True) (toy_rt\<lparr>jit_enabled := True\<rparr>) (Tensor 5)
       ((toy_model True True True)\<lparr>self_zf := Some (Tensor 30)\<rparr>)
     = (Inl TypeError, (toy_model True True True)\<lparr>self_zf := Some (Tensor 30)\<rparr>)"
  by (simp add: init_toy) (simp add: track_defs template_def prog_defs op_defs toy_defs)

section \<open>The order of \<^verbatim>\<open>template\<close> and \<^verbatim>\<open>track\<close> (C6)\<close>

text \<open>
  What holds of the ordering. (1) Whatever calls other than \<^verbatim>\<open>template\<close> come after a
  \<^verbatim>\<open>template(z)\<close> call, \<^verbatim>\<open>self.zf\<close> is what that call left there. (2) Without a cached
  embedding \<^verbatim>\<open>track\<close> never returns a result. (3) The body of \<^verbatim>\<open>track\<close> has no check up
  front: where it runs (the JIT disabled) with both flags set and the backbone, the
  slicing and the neck returning, it has already assigned \<^verbatim>\<open>self.xf\<close> when the read of
  \<^verbatim>\<open>self.zf\<close> raises.
\<close>

lemma zf_is_latest_template:
  "(\<forall>c \<in> set mid. \<not> is_template c) \<Longrightarrow>
   self_zf (run cfg rt (pre @ Template z # mid) s)
     = self_zf (snd (template cfg rt z (run cfg rt pre s)))"
  by (simp add: run_append run_zf)

lemma track_body_reads_zf_late:
  assumes "\<not> jit_enabled rt" "MASK_MASK cfg" "ADJUST_ADJUST cfg" "self_zf s = None"
    and "self_backbone s = Some bb" "bb x = Inr xf_local"
    and "slice_butlast rt xf_local = Inr xr" "getitem_last rt xf_local = Inr xl"
    and "self_neck s = Some nk" "nk xl = Inr xn" "self_rpn_head s = Some rh"
  shows "track cfg rt x s = (Inl (AttributeError ''zf''), s\<lparr>self_xf := Some xr\<rparr>)"
  using assms
  by (intro track_no_zf_both_flags[where bb=bb and nk=nk and rh=rh and xn=xn and xl=xl
        and xf_local=xf_local]) simp_all

text \<open>
  C6, at inputs where it fails. The claim says that a \<^verbatim>\<open>track\<close> call with no \<^verbatim>\<open>template\<close>
  call before it is not rejected up front and fails only when it reads the absent
  \<^verbatim>\<open>self.zf\<close>. On the object \<^verbatim>\<open>__init__\<close> builds, before any \<^verbatim>\<open>template\<close> call: with the
  JIT disabled, \<^verbatim>\<open>cfg.MASK.MASK\<close> unset and \<^verbatim>\<open>cfg.ADJUST.ADJUST\<close> set, the call fails one
  statement before that read, on the local \<^verbatim>\<open>xf\<close>; with the JIT enabled and all flags
  set, it fails at the call with \<^verbatim>\<open>TypeError\<close>, before the body runs. In neither case
  is \<^verbatim>\<open>self.zf\<close> read.
\<close>

theorem track_before_template_unbound_xf:
  "init (toy_cfg False True False) toy_factories = Inr (toy_model False True False) \<and>
   self_zf (toy_model False True False) = None \<and>
   track (toy_cfg False True False) toy_rt (Tensor 5) (toy_model False True False)
     = (Inl (UnboundLocalError ''xf''), toy_model False True False) \<and>
   UnboundLocalError ''xf'' \<noteq> AttributeError ''zf'' \<and>
   \<not> jit_enabled toy_rt \<and>
   init (toy_cfg True True True) toy_factories = Inr (toy_model True True True) \<and>
   self_zf (toy_model True True True) = None \<and>
   track (toy_cfg True True True) (toy_rt\<lparr>jit_enabled := True\<rparr>) (Tensor 5)
       (toy_model True True True)
     = (Inl TypeError, toy_model True True True) \<and>
   TypeError \<noteq> AttributeError ''zf''"
  by (simp add: init_toy) (simp add: track_defs prog_defs op_defs toy_defs)

section \<open>What \<^verbatim>\<open>mask_refine\<close> reads (C7)\<close>






section \<open>\<^verbatim>\<open>track\<close> needs both flags (C8)\<close>

text \<open>
  C8 as stated says that with a flag unset every call of \<^verbatim>\<open>track\<close> raises an
  unbound-local error. Two calls that raise another error: with the JIT disabled, on
  the object \<^verbatim>\<open>__init__\<close> builds with \<^verbatim>\<open>cfg.ADJUST.ADJUST\<close> unset and before any
  \<^verbatim>\<open>template\<close> call, the error is the \<^verbatim>\<open>AttributeError\<close> of \<^verbatim>\<open>self.zf\<close>, since in
  \<^verbatim>\<open>self.rpn_head(self.zf, xf_n)\<close> the first argument is evaluated before the second;
  with the JIT enabled the error is the \<^verbatim>\<open>TypeError\<close> of the call itself, here with
  \<^verbatim>\<open>cfg.MASK.MASK\<close> unset and after a \<^verbatim>\<open>template\<close> call.
\<close>

theorem track_without_adjust_attribute_error:
  "init (toy_cfg True False False) toy_factories = Inr (toy_model True False False) \<and>
   \<not> ADJUST_ADJUST (toy_cfg True False False) \<and>
   track (toy_cfg True False False) toy_rt (Tensor 5) (toy_model True False False)
     = (Inl (AttributeError ''zf''),
        (toy_model True False False)\<lparr>self_xf := Some (PyList [Tensor 6, Tensor 7])\<rparr>) \<and>
   AttributeError ''zf'' \<noteq> UnboundLocalError ''xf_n'' \<and>
   AttributeError ''zf'' \<noteq> UnboundLocalError ''xf'' \<and>
   \<not> jit_enabled toy_rt \<and>
   \<not> MASK_MASK (toy_cfg False True False) \<and>
   track (toy_cfg False True False) (toy_rt\<lparr>jit_enabled := True\<rparr>) (Tensor 5)
       ((toy_model False True False)\<lparr>self_zf := Some (Tensor 70)\<rparr>)
     = (Inl TypeError, (toy_model False True False)\<lparr>self_zf := Some (Tensor 70)\<rparr>) \<and>
   TypeError \<noteq> UnboundLocalError ''xf''"
  by (simp add: init_toy) (simp add: track_defs prog_defs op_defs toy_defs)

text \<open>
  C8, amended. With \<^verbatim>\<open>cfg.MASK.MASK\<close> or \<^verbatim>\<open>cfg.ADJUST.ADJUST\<close> unset, every call of
  \<^verbatim>\<open>track\<close> raises, whatever the object and the input. With the JIT enabled the error
  is the \<^verbatim>\<open>TypeError\<close> of the call, and the object is left as it was. With the JIT
  disabled the body runs: with the adjust flag set (so the mask flag unset), a backbone
  call that returns and a neck present, the error is the unbound local \<^verbatim>\<open>xf\<close>; with
  the adjust flag unset, a backbone call that returns (and, under the mask flag, its
  result sliced) and an rpn head present, the error is the unbound local \<^verbatim>\<open>xf_n\<close> if an
  embedding is cached and the \<^verbatim>\<open>AttributeError\<close> of \<^verbatim>\<open>self.zf\<close> if none is.
\<close>

theorem track_needs_both_flags:
  assumes "\<not> (MASK_MASK cfg \<and> ADJUST_ADJUST cfg)"
  shows "(\<exists>e. fst (track cfg rt x s) = Inl e) \<and>
         (jit_enabled rt \<longrightarrow> track cfg rt x s = (Inl TypeError, s)) \<and>
         (\<not> jit_enabled rt \<and> ADJUST_ADJUST cfg \<and> self_backbone s = Some bb \<and>
          bb x = Inr xf_local \<and> self_neck s = Some nk \<longrightarrow>
            track cfg rt x s = (Inl (UnboundLocalError ''xf''), s)) \<and>
         (\<not> jit_enabled rt \<and> \<not> ADJUST_ADJUST cfg \<and> self_backbone s = Some bb \<and>
          bb x = Inr xf_local \<and>
          (MASK_MASK cfg \<longrightarrow>
             (\<exists>a b. slice_butlast rt xf_local = Inr a \<and> getitem_last rt xf_local = Inr b)) \<and>
          self_rpn_head s = Some rh \<longrightarrow>
            fst (track cfg rt x s) =
              Inl (if self_zf s = None then AttributeError ''zf''
                   else UnboundLocalError ''xf_n''))"
proof (intro conjI impI)
  show "\<exists>e. fst (track cfg rt x s) = Inl e"
    using assms by (rule track_fails_without_flag)
next
  assume "jit_enabled rt"
  then show "track cfg rt x s = (Inl TypeError, s)"
    by (rule track_jit_enabled)
next
  assume h: "\<not> jit_enabled rt \<and> ADJUST_ADJUST cfg \<and> self_backbone s = Some bb \<and>
          bb x = Inr xf_local \<and> self_neck s = Some nk"
  with assms have "\<not> MASK_MASK cfg" by blast
  then show "track cfg rt x s = (Inl (UnboundLocalError ''xf''), s)"
    using h by (intro track_unbound_xf[where bb=bb and nk=nk and xf_local=xf_local]) simp_all
next
  assume h: "\<not> jit_enabled rt \<and> \<not> ADJUST_ADJUST cfg \<and> self_backbone s = Some bb \<and>
          bb x = Inr xf_local \<and>
          (MASK_MASK cfg \<longrightarrow>
             (\<exists>a b. slice_butlast rt xf_local = Inr a \<and> getitem_last rt xf_local = Inr b)) \<and>
          self_rpn_head s = Some rh"
  then show "fst (track cfg rt x s) =
              Inl (if self_zf s = None then AttributeError ''zf''
                   else UnboundLocalError ''xf_n'')"
    by (intro track_unbound_xf_n[where bb=bb and rh=rh and xf_local=xf_local]) simp_all
qed

theorem track_needs_both_flags_witness:
  "\<not> (MASK_MASK (toy_cfg False True False) \<and> ADJUST_ADJUST (toy_cfg False True False)) \<and>
   \<not> jit_enabled toy_rt \<and>
   track (toy_cfg False True False) toy_rt (Tensor 5)
       ((toy_model False True False)\<lparr>self_zf := Some (Tensor 70)\<rparr>)
     = (Inl (UnboundLocalError ''xf''), (toy_model False True False)\<lparr>self_zf := Some (Tensor 70)\<rparr>) \<and>
   \<not> (MASK_MASK (toy_cfg True False False) \<and> ADJUST_ADJUST (toy_cfg True False False)) \<and>
   fst (track (toy_cfg True False False) toy_rt (Tensor 5)
       ((toy_model True False False)\<lparr>self_zf := Some (Tensor 3)\<rparr>))
     = Inl (UnboundLocalError ''xf_n'') \<and>
   jit_enabled (toy_rt\<lparr>jit_enabled := True\<rparr>) \<and>
   track (toy_cfg True False False) (toy_rt\<lparr>jit_enabled := True\<rparr>) (Tensor 5)
       ((toy_model True False False)\<lparr>self_zf := Some (Tensor 3)\<rparr>)
     = (Inl TypeError, (toy_model True False False)\<lparr>self_zf := Some (Tensor 3)\<rparr>)"
proof -
  have h1: "\<not> (MASK_MASK (toy_cfg False True False) \<and> ADJUST_ADJUST (toy_cfg False True False))"
    by (simp add: toy_cfg_def)
  have h2: "\<not> (MASK_MASK (toy_cfg True False False) \<and> ADJUST_ADJUST (toy_cfg True False False))"
    by (simp add: toy_cfg_def)
  have j: "\<not> jit_enabled toy_rt"
    by (simp add: toy_rt_def)
  have j': "jit_enabled (toy_rt\<lparr>jit_enabled := True\<rparr>)"
    by simp
  have a1: "\<not> jit_enabled toy_rt \<and> ADJUST_ADJUST (toy_cfg False True False) \<and>
      self_backbone ((toy_model False True False)\<lparr>self_zf := Some (Tensor 70)\<rparr>) = Some toy_alexnet \<and>
      toy_alexnet (Tensor 5) = Inr (Tensor 12) \<and>
      self_neck ((toy_model False True False)\<lparr>self_zf := Some (Tensor 70)\<rparr>) = Some toy_neck"
    by (simp add: toy_defs)
  have a2: "\<not> jit_enabled toy_rt \<and> \<not> ADJUST_ADJUST (toy_cfg True False False) \<and>
      self_backbone ((toy_model True False False)\<lparr>self_zf := Some (Tensor 3)\<rparr>) = Some toy_resnet \<and>
      toy_resnet (Tensor 5) = Inr (PyList [Tensor 6, Tensor 7, Tensor 8]) \<and>
      (MASK_MASK (toy_cfg True False False) \<longrightarrow>
         (\<exists>a b. slice_butlast toy_rt (PyList [Tensor 6, Tensor 7, Tensor 8]) = Inr a \<and>
                getitem_last toy_rt (PyList [Tensor 6, Tensor 7, Tensor 8]) = Inr b)) \<and>
      self_rpn_head ((toy_model True False False)\<lparr>self_zf := Some (Tensor 3)\<rparr>) = Some toy_rpn"
    by (simp add: toy_defs op_defs)
  have c1: "track (toy_cfg False True False) toy_rt (Tensor 5)
       ((toy_model False True False)\<lparr>self_zf := Some (Tensor 70)\<rparr>)
     = (Inl (UnboundLocalError ''xf''), (toy_model False True False)\<lparr>self_zf := Some (Tensor 70)\<rparr>)"
    using track_needs_both_flags[OF h1, where rt=toy_rt and x="Tensor 5"
        and s="(toy_model False True False)\<lparr>self_zf := Some (Tensor 70)\<rparr>" and bb=toy_alexnet
        and xf_local="Tensor 12" and nk=toy_neck]
      a1 by blast
  have c2: "fst (track (toy_cfg True False False) toy_rt (Tensor 5)
       ((toy_model True False False)\<lparr>self_zf := Some (Tensor 3)\<rparr>))
     = Inl (if self_zf ((toy_model True False False)\<lparr>self_zf := Some (Tensor 3)\<rparr>) = None
            then AttributeError ''zf'' else UnboundLocalError ''xf_n'')"
    using track_needs_both_flags[OF h2, where rt=toy_rt and x="Tensor 5"
        and s="(toy_model True False False)\<lparr>self_zf := Some (Tensor 3)\<rparr>" and bb=toy_resnet
        and xf_local="PyList [Tensor 6, Tensor 7, Tensor 8]" and rh=toy_rpn]
      a2 by blast
  have c3: "track (toy_cfg True False False) (toy_rt\<lparr>jit_enabled := True\<rparr>) (Tensor 5)
       ((toy_model True False False)\<lparr>self_zf := Some (Tensor 3)\<rparr>)
     = (Inl TypeError, (toy_model True False False)\<lparr>self_zf := Some (Tensor 3)\<rparr>)"
    using track_needs_both_flags[OF h2, where rt="toy_rt\<lparr>jit_enabled := True\<rparr>"
        and x="Tensor 5" and s="(toy_model True False False)\<lparr>self_zf := Some (Tensor 3)\<rparr>"]
      j' by blast
  show ?thesis using h1 h2 j j' c1 c2 c3 by simp
qed

section \<open>Traces of \<^verbatim>\<open>forward\<close>\<close>

lemma never_returns_pbind: "(\<And>v. never_returns (f v)) \<Longrightarrow> never_returns (pbind m f)"
  unfolding never_returns_def pbind_def
proof
  fix s
  assume h: "\<And>v. \<forall>s. \<exists>e. fst (f v s) = Inl e"
  show "\<exists>e. fst (case m s of (Inl e, s') \<Rightarrow> (Inl e, s') | (Inr v, s') \<Rightarrow> f v s') = Inl e"
  proof (cases "m s")
    case (Pair r s')
    then show ?thesis using h by (cases r) auto
  qed
qed

lemma never_returns_case_prod:
  "(\<And>a b. never_returns (f a b)) \<Longrightarrow> never_returns (case p of (a, b) \<Rightarrow> f a b)"
  by (cases p) simp

lemma forward_mask_never_returns:
  assumes "MASK_MASK cfg"
  shows "never_returns (forward cfg rt data)"
  unfolding forward_def
  apply (intro never_returns_pbind never_returns_case_prod)
  apply (simp add: assms)
  apply (auto simp: never_returns_def pbind_def ret_def call_def getattr_def setattr_def py_rmul_def
      split: option.splits sum.splits prod.splits)
  done

lemma forward_mask_trace:
  assumes "MASK_MASK cfg"
    and "ebind (dict_getitem data ''template'') (py_cuda rt) = Inr tv"
    and "ebind (dict_getitem data ''search'') (py_cuda rt) = Inr sv"
    and "ebind (dict_getitem data ''label_cls'') (py_cuda rt) = Inr lc"
    and "ebind (dict_getitem data ''label_loc'') (py_cuda rt) = Inr ll"
    and "ebind (dict_getitem data ''label_loc_weight'') (py_cuda rt) = Inr lw"
    and "self_backbone s = Some bb" "bb tv = Inr zf0" "bb sv = Inr xf0"
    and "getitem_last rt zf0 = Inr zl" "slice_butlast rt xf0 = Inr xr"
    and "getitem_last rt xf0 = Inr xl"
    and "if ADJUST_ADJUST cfg
         then (\<exists>nk. self_neck s = Some nk \<and> nk zl = Inr zn \<and> nk xl = Inr xn)
         else zn = zl \<and> xn = xl"
    and "self_rpn_head s = Some rh" "rh zn xn = Inr (cls0, loc)"
    and "log_softmax rt cls0 = Inr cls"
    and "select_cross_entropy_loss rt cls lc = Inr cls_loss"
    and "weight_l1_loss rt loc ll lw = Inr loc_loss"
    and "py_rmul rt (TRAIN_CLS_WEIGHT cfg) cls_loss = Inr wc"
    and "py_rmul rt (TRAIN_LOC_WEIGHT cfg) loc_loss = Inr wl"
    and "py_add rt wc wl = Inr tot"
    and "self_mask_head s = Some mh" "mh zn xn = Inr (m, corr)"
  shows "forward cfg rt data s =
           (Inl TypeError, s\<lparr>self_xf_refine := Some xr, self_mask_corr_feature := Some corr\<rparr>)"
  using assms
  by (auto simp: forward_def pbind_def ret_def call_def getattr_def setattr_def py_rmul_def
        dict_getitem_def split: if_splits)

lemma forward_no_mask_trace:
  assumes "\<not> MASK_MASK cfg"
    and "ebind (dict_getitem data ''template'') (py_cuda rt) = Inr tv"
    and "ebind (dict_getitem data ''search'') (py_cuda rt) = Inr sv"
    and "ebind (dict_getitem data ''label_cls'') (py_cuda rt) = Inr lc"
    and "ebind (dict_getitem data ''label_loc'') (py_cuda rt) = Inr ll"
    and "ebind (dict_getitem data ''label_loc_weight'') (py_cuda rt) = Inr lw"
    and "self_backbone s = Some bb" "bb tv = Inr zf0" "bb sv = Inr xf0"
    and "if ADJUST_ADJUST cfg
         then (\<exists>nk. self_neck s = Some nk \<and> nk zf0 = Inr zn \<and> nk xf0 = Inr xn)
         else zn = zf0 \<and> xn = xf0"
    and "self_rpn_head s = Some rh" "rh zn xn = Inr (cls0, loc)"
    and "log_softmax rt cls0 = Inr cls"
    and "select_cross_entropy_loss rt cls lc = Inr cls_loss"
    and "weight_l1_loss rt loc ll lw = Inr loc_loss"
    and "py_rmul rt (TRAIN_CLS_WEIGHT cfg) cls_loss = Inr wc"
    and "py_rmul rt (TRAIN_LOC_WEIGHT cfg) loc_loss = Inr wl"
    and "py_add rt wc wl = Inr tot"
  shows "forward cfg rt data s =
           (Inr [(''total_loss'', tot), (''cls_loss'', cls_loss), (''loc_loss'', loc_loss)], s)"
  using assms
  by (auto simp: forward_def pbind_def ret_def call_def getattr_def setattr_def
        split: if_splits)

section \<open>\<^verbatim>\<open>forward\<close> under the mask flag (C9, C4)\<close>

text \<open>
  C9. With \<^verbatim>\<open>cfg.MASK.MASK\<close> set, \<^verbatim>\<open>forward(data)\<close> never returns, whatever the batch, the
  object and the collaborators: the mask branch binds \<^verbatim>\<open>mask_loss = None\<close> and evaluates
  \<^verbatim>\<open>cfg.TRAIN.MASK_WEIGHT * mask_loss\<close>, which is a \<^verbatim>\<open>TypeError\<close>. When every statement
  before that product completes (the hypotheses name what each one yields), this
  \<^verbatim>\<open>TypeError\<close> is the error raised, and by then \<^verbatim>\<open>self.xf_refine\<close> and
  \<^verbatim>\<open>self.mask_corr_feature\<close> have been assigned.
\<close>

theorem forward_with_mask_raises:
  assumes "MASK_MASK cfg"
  shows "(\<exists>e. fst (forward cfg rt data s) = Inl e) \<and>
         (ebind (dict_getitem data ''template'') (py_cuda rt) = Inr tv \<and>
          ebind (dict_getitem data ''search'') (py_cuda rt) = Inr sv \<and>
          ebind (dict_getitem data ''label_cls'') (py_cuda rt) = Inr lc \<and>
          ebind (dict_getitem data ''label_loc'') (py_cuda rt) = Inr ll \<and>
          ebind (dict_getitem data ''label_loc_weight'') (py_cuda rt) = Inr lw \<and>
          self_backbone s = Some bb \<and> bb tv = Inr zf0 \<and> bb sv = Inr xf0 \<and>
          getitem_last rt zf0 = Inr zl \<and> slice_butlast rt xf0 = Inr xr \<and>
          getitem_last rt xf0 = Inr xl \<and>
          (if ADJUST_ADJUST cfg
           then (\<exists>nk. self_neck s = Some nk \<and> nk zl = Inr zn \<and> nk xl = Inr xn)
           else zn = zl \<and> xn = xl) \<and>
          self_rpn_head s = Some rh \<and> rh zn xn = Inr (cls0, loc) \<and>
          log_softmax rt cls0 = Inr cls \<and>
          select_cross_entropy_loss rt cls lc = Inr cls_loss \<and>
          weight_l1_loss rt loc ll lw = Inr loc_loss \<and>
          py_rmul rt (TRAIN_CLS_WEIGHT cfg) cls_loss = Inr wc \<and>
          py_rmul rt (TRAIN_LOC_WEIGHT cfg) loc_loss = Inr wl \<and>
          py_add rt wc wl = Inr tot \<and>
          self_mask_head s = Some mh \<and> mh zn xn = Inr (m, corr) \<longrightarrow>
            py_rmul rt (TRAIN_MASK_WEIGHT cfg) PyNone = Inl TypeError \<and>
            forward cfg rt data s =
              (Inl TypeError,
               s\<lparr>self_xf_refine := Some xr, self_mask_corr_feature := Some corr\<rparr>))"
proof (intro conjI impI)
  show "\<exists>e. fst (forward cfg rt data s) = Inl e"
    using forward_mask_never_returns[OF assms, of rt data] unfolding never_returns_def by blast
next
  show "py_rmul rt (TRAIN_MASK_WEIGHT cfg) PyNone = Inl TypeError"
    by (simp add: py_rmul_def)
next
  assume h: "ebind (dict_getitem data ''template'') (py_cuda rt) = Inr tv \<and>
          ebind (dict_getitem data ''search'') (py_cuda rt) = Inr sv \<and>
          ebind (dict_getitem data ''label_cls'') (py_cuda rt) = Inr lc \<and>
          ebind (dict_getitem data ''label_loc'') (py_cuda rt) = Inr ll \<and>
          ebind (dict_getitem data ''label_loc_weight'') (py_cuda rt) = Inr lw \<and>
          self_backbone s = Some bb \<and> bb tv = Inr zf0 \<and> bb sv = Inr xf0 \<and>
          getitem_last rt zf0 = Inr zl \<and> slice_butlast rt xf0 = Inr xr \<and>
          getitem_last rt xf0 = Inr xl \<and>
          (if ADJUST_ADJUST cfg
           then (\<exists>nk. self_neck s = Some nk \<and> nk zl = Inr zn \<and> nk xl = Inr xn)
           else zn = zl \<and> xn = xl) \<and>
          self_rpn_head s = Some rh \<and> rh zn xn = Inr (cls0, loc) \<and>
          log_softmax rt cls0 = Inr cls \<and>
          select_cross_entropy_loss rt cls lc = Inr cls_loss \<and>
          weight_l1_loss rt loc ll lw = Inr loc_loss \<and>
          py_rmul rt (TRAIN_CLS_WEIGHT cfg) cls_loss = Inr wc \<and>
          py_rmul rt (TRAIN_LOC_WEIGHT cfg) loc_loss = Inr wl \<and>
          py_add rt wc wl = Inr tot \<and>
          self_mask_head s = Some mh \<and> mh zn xn = Inr (m, corr)"
  show "forward cfg rt data s =
              (Inl TypeError,
               s\<lparr>self_xf_refine := Some xr, self_mask_corr_feature := Some corr\<rparr>)"
    by (rule forward_mask_trace[OF assms, where tv=tv and sv=sv and lc=lc and ll=ll and lw=lw
          and bb=bb and ?zf0.0=zf0 and ?xf0.0=xf0 and zl=zl and xl=xl and zn=zn and xn=xn and rh=rh
          and ?cls0.0=cls0 and loc=loc and cls=cls and cls_loss=cls_loss and loc_loss=loc_loss
          and wc=wc and wl=wl and tot=tot and mh=mh and m=m])
      (use h in simp_all)
qed

theorem forward_with_mask_raises_witness:
  "MASK_MASK (toy_cfg True False False) \<and>
   (ebind (dict_getitem toy_data ''template'') (py_cuda toy_rt) = Inr (Tensor 1) \<and>
    ebind (dict_getitem toy_data ''search'') (py_cuda toy_rt) = Inr (Tensor 2) \<and>
    ebind (dict_getitem toy_data ''label_cls'') (py_cuda toy_rt) = Inr (Tensor 3) \<and>
    ebind (dict_getitem toy_data ''label_loc'') (py_cuda toy_rt) = Inr (Tensor 4) \<and>
    ebind (dict_getitem toy_data ''label_loc_weight'') (py_cuda toy_rt) = Inr (Tensor 5) \<and>
    self_backbone (toy_model True False False) = Some toy_resnet \<and>
    toy_resnet (Tensor 1) = Inr (PyList [Tensor 2, Tensor 3, Tensor 4]) \<and>
    toy_resnet (Tensor 2) = Inr (PyList [Tensor 3, Tensor 4, Tensor 5]) \<and>
    getitem_last toy_rt (PyList [Tensor 2, Tensor 3, Tensor 4]) = Inr (Tensor 4) \<and>
    slice_butlast toy_rt (PyList [Tensor 3, Tensor 4, Tensor 5]) = Inr (PyList [Tensor 3, Tensor 4]) \<and>
    getitem_last toy_rt (PyList [Tensor 3, Tensor 4, Tensor 5]) = Inr (Tensor 5) \<and>
    \<not> ADJUST_ADJUST (toy_cfg True False False) \<and>
    self_rpn_head (toy_model True False False) = Some toy_rpn \<and>
    toy_rpn (Tensor 4) (Tensor 5) = Inr (Tensor 9, Tensor 20) \<and>
    log_softmax toy_rt (Tensor 9) = Inr (Tensor 109) \<and>
    select_cross_entropy_loss toy_rt (Tensor 109) (Tensor 3) = Inr (Tensor 112) \<and>
    weight_l1_loss toy_rt (Tensor 20) (Tensor 4) (Tensor 5) = Inr (Tensor 40) \<and>
    py_rmul toy_rt (TRAIN_CLS_WEIGHT (toy_cfg True False False)) (Tensor 112) = Inr (Tensor 112) \<and>
    py_rmul toy_rt (TRAIN_LOC_WEIGHT (toy_cfg True False False)) (Tensor 40) = Inr (Tensor 80) \<and>
    py_add toy_rt (Tensor 112) (Tensor 80) = Inr (Tensor 192) \<and>
    self_mask_head (toy_model True False False) = Some toy_mask \<and>
    toy_mask (Tensor 4) (Tensor 5) = Inr (Tensor 10, Tensor 14)) \<and>
   forward (toy_cfg True False False) toy_rt toy_data (toy_model True False False)
     = (Inl TypeError,
        (toy_model True False False)\<lparr>self_xf_refine := Some (PyList [Tensor 3, Tensor 4]),
           self_mask_corr_feature := Some (Tensor 14)\<rparr>)"
proof -
  have m: "MASK_MASK (toy_cfg True False False)"
    by (simp add: toy_cfg_def)
  have h: "ebind (dict_getitem toy_data ''template'') (py_cuda toy_rt) = Inr (Tensor 1) \<and>
    ebind (dict_getitem toy_data ''search'') (py_cuda toy_rt) = Inr (Tensor 2) \<and>
    ebind (dict_getitem toy_data ''label_cls'') (py_cuda toy_rt) = Inr (Tensor 3) \<and>
    ebind (dict_getitem toy_data ''label_loc'') (py_cuda toy_rt) = Inr (Tensor 4) \<and>
    ebind (dict_getitem toy_data ''label_loc_weight'') (py_cuda toy_rt) = Inr (Tensor 5) \<and>
    self_backbone (toy_model True False False) = Some toy_resnet \<and>
    toy_resnet (Tensor 1) = Inr (PyList [Tensor 2, Tensor 3, Tensor 4]) \<and>
    toy_resnet (Tensor 2) = Inr (PyList [Tensor 3, Tensor 4, Tensor 5]) \<and>
    getitem_last toy_rt (PyList [Tensor 2, Tensor 3, Tensor 4]) = Inr (Tensor 4) \<and>
    slice_butlast toy_rt (PyList [Tensor 3, Tensor 4, Tensor 5]) = Inr (PyList [Tensor 3, Tensor 4]) \<and>
    getitem_last toy_rt (PyList [Tensor 3, Tensor 4, Tensor 5]) = Inr (Tensor 5) \<and>
    \<not> ADJUST_ADJUST (toy_cfg True False False) \<and>
    self_rpn_head (toy_model True False False) = Some toy_rpn \<and>
    toy_rpn (Tensor 4) (Tensor 5) = Inr (Tensor 9, Tensor 20) \<and>
    log_softmax toy_rt (Tensor 9) = Inr (Tensor 109) \<and>
    select_cross_entropy_loss toy_rt (Tensor 109) (Tensor 3) = Inr (Tensor 112) \<and>
    weight_l1_loss toy_rt (Tensor 20) (Tensor 4) (Tensor 5) = Inr (Tensor 40) \<and>
    py_rmul toy_rt (TRAIN_CLS_WEIGHT (toy_cfg True False False)) (Tensor 112) = Inr (Tensor 112) \<and>
    py_rmul toy_rt (TRAIN_LOC_WEIGHT (toy_cfg True False False)) (Tensor 40) = Inr (Tensor 80) \<and>
    py_add toy_rt (Tensor 112) (Tensor 80) = Inr (Tensor 192) \<and>
    self_mask_head (toy_model True False False) = Some toy_mask \<and>
    toy_mask (Tensor 4) (Tensor 5) = Inr (Tensor 10, Tensor 14)"
    by (simp add: toy_defs op_defs ebind_def)
  have c: "forward (toy_cfg True False False) toy_rt toy_data (toy_model True False False)
     = (Inl TypeError,
        (toy_model True False False)\<lparr>self_xf_refine := Some (PyList [Tensor 3, Tensor 4]),
           self_mask_corr_feature := Some (Tensor 14)\<rparr>)"
    using forward_with_mask_raises[OF m, where data=toy_data and rt=toy_rt
        and s="toy_model True False False" and tv="Tensor 1" and sv="Tensor 2" and lc="Tensor 3"
        and ll="Tensor 4" and lw="Tensor 5" and bb=toy_resnet
        and ?zf0.0="PyList [Tensor 2, Tensor 3, Tensor 4]"
        and ?xf0.0="PyList [Tensor 3, Tensor 4, Tensor 5]"
        and zl="Tensor 4" and xr="PyList [Tensor 3, Tensor 4]" and xl="Tensor 5"
        and zn="Tensor 4" and xn="Tensor 5" and rh=toy_rpn
        and ?cls0.0="Tensor 9" and loc="Tensor 20" and cls="Tensor 109"
        and cls_loss="Tensor 112" and loc_loss="Tensor 40" and wc="Tensor 112"
        and wl="Tensor 80" and tot="Tensor 192" and mh=toy_mask and m="Tensor 10"
        and corr="Tensor 14"] h
    by simp
  show ?thesis using m h c by blast
qed

text \<open>
  C4, at a configuration where it fails. With all three flags set, on the object
  \<^verbatim>\<open>__init__\<close> builds, \<^verbatim>\<open>forward\<close> returns no \<^verbatim>\<open>outputs\<close> dictionary: it raises the
  \<^verbatim>\<open>TypeError\<close> of \<^verbatim>\<open>cfg.TRAIN.MASK_WEIGHT * None\<close>. Lemma \<open>forward_no_mask_trace\<close> is the
  part of C4 that holds: without the mask flag the result has the three entries
  \<^verbatim>\<open>total_loss\<close>, \<^verbatim>\<open>cls_loss\<close> and \<^verbatim>\<open>loc_loss\<close>, the first being the weighted sum of the
  other two.
\<close>

theorem forward_with_mask_type_error:
  "init (toy_cfg True True True) toy_factories = Inr (toy_model True True True) \<and>
   MASK_MASK (toy_cfg True True True) \<and>
   forward (toy_cfg True True True) toy_rt toy_data (toy_model True True True)
     = (Inl TypeError,
        (toy_model True True True)\<lparr>self_xf_refine := Some (PyList [Tensor 3, Tensor 4]),
           self_mask_corr_feature := Some (Tensor 140)\<rparr>)"
  by (simp add: init_toy) (simp add: forward_def prog_defs op_defs toy_defs)

section \<open>\<^verbatim>\<open>save_script\<close> (C5)\<close>

lemmas save_defs = save_script_def export_script_def truthy_attr_def os_path_join_def

lemma save_script_needs_every_submodule:
  assumes "fst (save_script rt save_path s) = Inr u"
  shows "self_backbone s \<noteq> None \<and> self_neck s \<noteq> None \<and> self_rpn_head s \<noteq> None \<and>
         self_mask_head s \<noteq> None \<and> self_refine_head s \<noteq> None"
proof -
  have "self_backbone s = None \<or> self_neck s = None \<or> self_rpn_head s = None \<or>
        self_mask_head s = None \<or> self_refine_head s = None \<Longrightarrow>
        \<exists>e. fst (save_script rt save_path s) = Inl e"
    by (auto simp: save_script_def truthy_attr_def pbind_def ret_def raise_def
        split: option.splits sum.splits prod.splits)
  then have "\<not> (self_backbone s = None \<or> self_neck s = None \<or> self_rpn_head s = None \<or>
        self_mask_head s = None \<or> self_refine_head s = None)"
    using assms by fastforce
  then show ?thesis by simp
qed

lemma save_script_all_present:
  assumes "self_backbone s \<noteq> None" "self_neck s \<noteq> None" "self_rpn_head s \<noteq> None"
    and "self_mask_head s \<noteq> None" "self_refine_head s \<noteq> None"
    and "\<And>m. jit_script rt m = Inr ()" "\<And>m p. script_save rt m p = Inr ()"
  shows "save_script rt save_path s =
     (Inr (),
      [Saved (os_path_join save_path ''back_bone.pt'') Backbone,
       Printed (''Save backbone as '' @ os_path_join save_path ''back_bone.pt''),
       Saved (os_path_join save_path ''neck.pt'') Neck,
       Printed (''Save neckscript as '' @ os_path_join save_path ''neck.pt''),
       Saved (os_path_join save_path ''rpn_head.pt'') RpnHead,
       Printed (''Save rpn_head_script as '' @ os_path_join save_path ''rpn_head.pt''),
       Saved (os_path_join save_path ''mask_head.pt'') MaskHead,
       Printed (''Save mask_head_script as '' @ os_path_join save_path ''mask_head.pt''),
       Saved (os_path_join save_path ''refine_head.pt'') RefineHead,
       Printed (''Save refine_head_script as '' @ os_path_join save_path ''refine_head.pt'')])"
  using assms
  by (auto simp: save_script_def export_script_def truthy_attr_def prog_defs)

text \<open>
  C5, at a configuration where it fails. With no flag set, on the object \<^verbatim>\<open>__init__\<close>
  builds, \<^verbatim>\<open>save_script\<close> writes \<^verbatim>\<open>back_bone.pt\<close> and then raises: \<^verbatim>\<open>if self.neck:\<close> reads
  an attribute that \<^verbatim>\<open>__init__\<close> did not assign. Lemma \<open>save_script_all_present\<close> is the
  part of C5 that holds, the five files written when all five submodules exist; by
  lemma \<open>save_script_needs_every_submodule\<close> the call completes in no other case.
\<close>

theorem save_script_without_neck_raises:
  "init (toy_cfg False False False) toy_factories = Inr (toy_model False False False) \<and>
   self_neck (toy_model False False False) = None \<and>
   save_script toy_rt ''/tmp/out'' (toy_model False False False)
     = (Inl (AttributeError ''neck''),
        [Saved ''/tmp/out/back_bone.pt'' Backbone,
         Printed ''Save backbone as /tmp/out/back_bone.pt''])"
  by (simp add: init_toy) (simp add: save_defs prog_defs toy_defs)

end
